theory Spec2Isabelle
  imports Main "HOL-Library.AList"
begin

section \<open>Python values, dictionaries and exceptions\<close>

text \<open>
  The client in \<^verbatim>\<open>Shared/airtable_manager.py\<close> handles field values of the record
  store: strings, booleans, numbers, nothing, and lists of these (linked-record fields).
\<close>

datatype pyval = PNone | PBool bool | PInt int | PStr string | PList "pyval list"

text \<open>The exceptions that the modelled code can raise or receive from the service.\<close>

datatype py_error =
    ValueError string
  | KeyError string
  | IndexError
  | AttributeError
  | TypeError
  | RequestException
  | OtherException

type_synonym pydict = "(string \<times> pyval) list"

text \<open>Python truthiness: \<^verbatim>\<open>not v\<close> is the negation of \<open>truthy v\<close>.\<close>

fun truthy :: "pyval \<Rightarrow> bool" where
  "truthy PNone = False"
| "truthy (PBool b) = b"
| "truthy (PInt n) = (n \<noteq> 0)"
| "truthy (PStr s) = (s \<noteq> [])"
| "truthy (PList xs) = (xs \<noteq> [])"

text \<open>\<^verbatim>\<open>isinstance(v, list)\<close>.\<close>

fun is_list :: "pyval \<Rightarrow> bool" where
  "is_list (PList xs) = True"
| "is_list v = False"

text \<open>\<^verbatim>\<open>d.get(k)\<close> and \<^verbatim>\<open>d.get(k, default)\<close>.\<close>

definition dict_get_default :: "pydict \<Rightarrow> string \<Rightarrow> pyval \<Rightarrow> pyval" where
  "dict_get_default d k dflt = (case map_of d k of None \<Rightarrow> dflt | Some v \<Rightarrow> v)"

definition dict_get :: "pydict \<Rightarrow> string \<Rightarrow> pyval" where
  "dict_get d k = dict_get_default d k PNone"

text \<open>\<^verbatim>\<open>v[0]\<close>: the first element of a non-empty list, IndexError on an empty one.\<close>

fun index0 :: "pyval \<Rightarrow> py_error + pyval" where
  "index0 (PList (x # xs)) = Inr x"
| "index0 (PList []) = Inl IndexError"
| "index0 (PStr (c # cs)) = Inr (PStr [c])"
| "index0 (PStr []) = Inl IndexError"
| "index0 v = Inl TypeError"

text \<open>
  \<^verbatim>\<open>v.split("T")[0]\<close>: for a string, the part before the first \<^verbatim>\<open>T\<close> (the whole string
  when there is none); any other value has no \<^verbatim>\<open>split\<close>.
\<close>

fun split_T_0 :: "pyval \<Rightarrow> py_error + string" where
  "split_T_0 (PStr s) = Inr (takeWhile (\<lambda>c. c \<noteq> CHR ''T'') s)"
| "split_T_0 v = Inl AttributeError"

section \<open>The record store\<close>

text \<open>
  A record of the service is a dictionary with the keys \<^verbatim>\<open>id\<close> and \<^verbatim>\<open>fields\<close>; the code
  reads the first with \<^verbatim>\<open>record["id"]\<close> or \<^verbatim>\<open>record.get("id")\<close> and the second with
  \<^verbatim>\<open>record.get("fields", {})\<close>, so both may be absent.
\<close>

record airtable_record =
  rec_id :: "string option"
  rec_fields :: "pydict option"

text \<open>\<^verbatim>\<open>record.get("fields", {})\<close>.\<close>

definition get_fields :: "airtable_record \<Rightarrow> pydict" where
  "get_fields r = (case rec_fields r of None \<Rightarrow> [] | Some d \<Rightarrow> d)"

text \<open>The keyword arguments of \<^verbatim>\<open>table.all\<close>.\<close>

record all_request =
  req_view :: "string option"
  req_fields :: "string list option"
  req_max_records :: "nat option"

text \<open>
  The service itself is outside the repository: \<^verbatim>\<open>api.table(base, table).all(...)\<close> and
  \<^verbatim>\<open>api.table(base, table).update(record_id, fields, typecast=...)\<close> either answer or
  raise, and \<^verbatim>\<open>datetime.now(tz).strftime("%Y-%m-%d")\<close> reads the clock in a named zone.
\<close>

record service =
  table_all :: "string option \<Rightarrow> string option \<Rightarrow> all_request \<Rightarrow> py_error + airtable_record list"
  table_update :: "string option \<Rightarrow> string option \<Rightarrow> string \<Rightarrow> pydict \<Rightarrow> bool \<Rightarrow> py_error + airtable_record"
  now_date :: "string \<Rightarrow> string"

section \<open>Construction of the client\<close>

record client =
  api_key :: string
  base_id :: "string option"
  table_id :: "string option"
  view_name :: "string option"

record table_config =
  cfg_base_id :: "string option"
  cfg_table_id :: "string option"
  cfg_view :: string

text \<open>Truthiness of what \<^verbatim>\<open>os.getenv\<close> returns, and of an optional string argument.\<close>

fun truthy_opt :: "string option \<Rightarrow> bool" where
  "truthy_opt None = False"
| "truthy_opt (Some s) = (s \<noteq> [])"

definition table_map :: "(string \<Rightarrow> string option) \<Rightarrow> (string \<times> table_config) list" where
  "table_map getenv =
     [(''content_alexis'',
         \<lparr>cfg_base_id = getenv ''ALEXIS_BASE_ID'',
          cfg_table_id = getenv ''ALEXIS_CONTENT_TABLE_ID'',
          cfg_view = ''Unposted''\<rparr>),
      (''content_maddison'',
         \<lparr>cfg_base_id = getenv ''MADDISON_BASE_ID'',
          cfg_table_id = getenv ''MADDISON_CONTENT_TABLE_ID'',
          cfg_view = ''Unposted''\<rparr>),
      (''warmup_accounts'',
         \<lparr>cfg_base_id = getenv ''IG_ARMY_BASE_ID'',
          cfg_table_id = getenv ''IG_ARMY_WARMUP_ACCOUNTS_TABLE_ID'',
          cfg_view = ''Warmup''\<rparr>)]"

definition quoted :: "string \<Rightarrow> string" where
  "quoted s = [CHR 0x27] @ s @ [CHR 0x27]"

text \<open>\<^verbatim>\<open>AirtableClient.__init__(table_key)\<close>, with the environment as an argument.\<close>

definition init :: "(string \<Rightarrow> string option) \<Rightarrow> string option \<Rightarrow> py_error + client" where
  "init getenv table_key =
     (case getenv ''AIRTABLE_API_KEY'' of
        None \<Rightarrow> Inl (ValueError ''Missing AIRTABLE_API_KEY in environment variables'')
      | Some key \<Rightarrow>
          if key = [] then Inl (ValueError ''Missing AIRTABLE_API_KEY in environment variables'')
          else (case table_key of
                  None \<Rightarrow> Inr \<lparr>api_key = key, base_id = None, table_id = None, view_name = None\<rparr>
                | Some k \<Rightarrow>
                    if k = [] then
                      Inr \<lparr>api_key = key, base_id = None, table_id = None, view_name = None\<rparr>
                    else (case map_of (table_map getenv) k of
                            None \<Rightarrow> Inl (ValueError (''Unsupported table key: '' @ quoted k))
                          | Some config \<Rightarrow>
                              if truthy_opt (cfg_base_id config)
                                 \<and> truthy_opt (cfg_table_id config)
                                 \<and> cfg_view config \<noteq> []
                              then Inr \<lparr>api_key = key,
                                        base_id = cfg_base_id config,
                                        table_id = cfg_table_id config,
                                        view_name = Some (cfg_view config)\<rparr>
                              else Inl (ValueError
                                     (''Missing required environment variables for table key: ''
                                        @ quoted k)))))"

fun raises_ValueError :: "py_error + 'a \<Rightarrow> bool" where
  "raises_ValueError (Inl (ValueError msg)) = True"
| "raises_ValueError r = False"

section \<open>Fetching the records due today\<close>

record due_fields =
  username :: pyval
  package_name :: pyval
  media_url :: pyval

record due_entry =
  due_id :: string
  due_fields :: due_fields

text \<open>
  Line 87: \<^verbatim>\<open>raw_package[0] if isinstance(raw_package, list) and raw_package else raw_package\<close>.
\<close>

fun package_name_of :: "pyval \<Rightarrow> pyval" where
  "package_name_of (PList (x # xs)) = x"
| "package_name_of raw_package = raw_package"

text \<open>
  The \<^verbatim>\<open>for record in records\<close> loop of \<^verbatim>\<open>get_unposted_records_for_today\<close>;
  \<open>matching\<close> is the list built so far, and an exception leaves the loop as \<open>Inl\<close>.
\<close>

fun unposted_loop ::
  "string \<Rightarrow> int \<Rightarrow> airtable_record list \<Rightarrow> due_entry list \<Rightarrow> py_error + due_entry list" where
  "unposted_loop today_str max_count [] matching = Inr matching"
| "unposted_loop today_str max_count (record # records) matching =
     (let fields = get_fields record;
          schedule_raw = dict_get fields ''Schedule Date''
      in if \<not> truthy schedule_raw then unposted_loop today_str max_count records matching
         else (case split_T_0 schedule_raw of
                 Inl e \<Rightarrow> Inl e
               | Inr scheduled_date \<Rightarrow>
                   if scheduled_date \<noteq> today_str
                   then unposted_loop today_str max_count records matching
                   else (case rec_id record of
                           None \<Rightarrow> Inl (KeyError ''id'')
                         | Some i \<Rightarrow>
                             (let matching' = matching @
                                    [\<lparr>due_id = i,
                                      due_fields =
                                        \<lparr>username = dict_get fields ''Username'',
                                         package_name =
                                           package_name_of (dict_get fields ''Package Name''),
                                         media_url = dict_get fields ''Drive URL''\<rparr>\<rparr>]
                              in if int (length matching') \<ge> max_count then Inr matching'
                                 else unposted_loop today_str max_count records matching'))))"

text \<open>The body of the \<^verbatim>\<open>try\<close>, then the method with its \<^verbatim>\<open>except Exception\<close>.\<close>

definition unposted_body :: "service \<Rightarrow> client \<Rightarrow> int \<Rightarrow> py_error + due_entry list" where
  "unposted_body svc self max_count =
     (case table_all svc (base_id self) (table_id self)
             \<lparr>req_view = view_name self, req_fields = None, req_max_records = None\<rparr> of
        Inl e \<Rightarrow> Inl e
      | Inr records \<Rightarrow>
          unposted_loop (now_date svc ''America/Bogota'') max_count records [])"

definition get_unposted_records_for_today :: "service \<Rightarrow> client \<Rightarrow> int \<Rightarrow> due_entry list" where
  "get_unposted_records_for_today svc self max_count =
     (case unposted_body svc self max_count of Inl e \<Rightarrow> [] | Inr matching \<Rightarrow> matching)"

section \<open>Writing fields back\<close>

text \<open>
  \<^verbatim>\<open>update_record_fields\<close> catches every exception of the update and returns \<^verbatim>\<open>None\<close>;
  its own result is therefore never an exception.
\<close>

definition update_record_fields ::
  "service \<Rightarrow> client \<Rightarrow> string \<Rightarrow> pydict \<Rightarrow> py_error + airtable_record option" where
  "update_record_fields svc self record_id field_map =
     (case table_update svc (base_id self) (table_id self) record_id field_map True of
        Inl e \<Rightarrow> Inr None
      | Inr result \<Rightarrow> Inr (Some result))"

definition mark_something_went_wrong_and_rotate :: "service \<Rightarrow> client \<Rightarrow> string \<Rightarrow> bool" where
  "mark_something_went_wrong_and_rotate svc self record_id =
     (case update_record_fields svc self record_id [(''Something Went Wrong'', PBool True)] of
        Inl e \<Rightarrow> False
      | Inr r \<Rightarrow> True)"

section \<open>Fetching one available account\<close>

record account_result =
  acc_id :: "string option"
  acc_fields :: pydict
  acc_base_id :: string
  acc_table_id :: string

text \<open>
  Lines 155 to 164, for one field name:
  \<^verbatim>\<open>record_fields.get(k, [None])[0] if isinstance(record_fields.get(k), list) else record_fields.get(k)\<close>.
\<close>

definition normalize_array_field :: "pydict \<Rightarrow> string \<Rightarrow> py_error + pyval" where
  "normalize_array_field record_fields k =
     (if is_list (dict_get record_fields k)
      then index0 (dict_get_default record_fields k (PList [PNone]))
      else Inr (dict_get record_fields k))"

definition account_fields :: "string list" where
  "account_fields =
     [''Account'', ''Password'', ''Email'', ''Email Password'', ''Package Name'', ''Device ID'']"

definition single_account_body ::
  "service \<Rightarrow> client \<Rightarrow> string \<Rightarrow> string \<Rightarrow> string \<Rightarrow> py_error + account_result option" where
  "single_account_body svc self base table view_id =
     (case table_all svc (Some base) (Some table)
             \<lparr>req_view = Some view_id, req_fields = Some account_fields,
              req_max_records = Some 1\<rparr> of
        Inl e \<Rightarrow> Inl e
      | Inr [] \<Rightarrow> Inr None
      | Inr (record # rest) \<Rightarrow>
          (let record_id = rec_id record;
               record_fields = get_fields record
           in case normalize_array_field record_fields ''Package Name'' of
                Inl e \<Rightarrow> Inl e
              | Inr p \<Rightarrow>
                  (let record_fields = AList.update ''Package Name'' p record_fields
                   in case normalize_array_field record_fields ''Device ID'' of
                        Inl e \<Rightarrow> Inl e
                      | Inr d \<Rightarrow>
                          (let record_fields = AList.update ''Device ID'' d record_fields
                           in Inr (Some \<lparr>acc_id = record_id, acc_fields = record_fields,
                                          acc_base_id = base, acc_table_id = table\<rparr>)))))"

definition get_single_active_account ::
  "service \<Rightarrow> client \<Rightarrow> string \<Rightarrow> string \<Rightarrow> string \<Rightarrow> account_result option" where
  "get_single_active_account svc self base table view_id =
     (case single_account_body svc self base table view_id of
        Inl e \<Rightarrow> None
      | Inr r \<Rightarrow> r)"

section \<open>Fetching the pending warm-up records\<close>

record warmup_entry =
  wu_record_id :: string
  wu_username :: pyval
  wu_device_id :: pyval
  wu_package_name :: pyval

fun flatten :: "pyval \<Rightarrow> pyval" where
  "flatten (PList (x # xs)) = x"
| "flatten v = v"

text \<open>
  \<^verbatim>\<open>len(result) >= max_count\<close> for an integer or a boolean \<open>max_count\<close>; a string, a list
  or \<^verbatim>\<open>None\<close> cannot be compared with a number.
\<close>

fun len_ge :: "nat \<Rightarrow> pyval \<Rightarrow> py_error + bool" where
  "len_ge n (PInt m) = Inr (int n \<ge> m)"
| "len_ge n (PBool b) = Inr (int n \<ge> (if b then 1 else 0))"
| "len_ge n v = Inl TypeError"

text \<open>
  The loop of \<^verbatim>\<open>get_pending_warmup_records\<close>. The method has no \<^verbatim>\<open>try\<close>: what the
  loop or the service raises reaches the caller.
\<close>

fun warmup_loop ::
  "pyval \<Rightarrow> airtable_record list \<Rightarrow> warmup_entry list \<Rightarrow> py_error + warmup_entry list" where
  "warmup_loop max_count [] result = Inr result"
| "warmup_loop max_count (record # records) result =
     (let fields = get_fields record
      in if dict_get fields ''Status'' \<noteq> PStr ''Warmup''
         then warmup_loop max_count records result
         else if dict_get fields ''Daily Warmup Complete'' = PBool True
         then warmup_loop max_count records result
         else (case rec_id record of
                 None \<Rightarrow> Inl (KeyError ''id'')
               | Some i \<Rightarrow>
                   (let result' = result @
                          [\<lparr>wu_record_id = i,
                            wu_username = flatten (dict_get fields ''Username''),
                            wu_device_id = flatten (dict_get fields ''Device ID''),
                            wu_package_name = flatten (dict_get fields ''Package Name'')\<rparr>]
                    in if \<not> truthy max_count then warmup_loop max_count records result'
                       else (case len_ge (length result') max_count of
                               Inl e \<Rightarrow> Inl e
                             | Inr stop \<Rightarrow>
                                 if stop then Inr result'
                                 else warmup_loop max_count records result'))))"

definition get_pending_warmup_records ::
  "service \<Rightarrow> client \<Rightarrow> pyval \<Rightarrow> py_error + warmup_entry list" where
  "get_pending_warmup_records svc self max_count =
     (case table_all svc (base_id self) (table_id self)
             \<lparr>req_view = Some ''Warmup'', req_fields = None, req_max_records = None\<rparr> of
        Inl e \<Rightarrow> Inl e
      | Inr records \<Rightarrow> warmup_loop max_count records [])"

section \<open>What the operations are expected to compute\<close>

text \<open>
  The predicates and projections below are written from the specification's words, to be
  compared with the loops above. A record is due when its stored schedule date is a
  non-empty string whose part before the first \<^verbatim>\<open>T\<close> is today's date.
\<close>

definition is_due :: "string \<Rightarrow> airtable_record \<Rightarrow> bool" where
  "is_due today_str r =
     (case dict_get (get_fields r) ''Schedule Date'' of
        PStr s \<Rightarrow> s \<noteq> [] \<and> takeWhile (\<lambda>c. c \<noteq> CHR ''T'') s = today_str
      | v \<Rightarrow> False)"

text \<open>
  The stored schedule date is a string, or it is absent or empty (falsy); and the record
  carries an id. The store delivers records of this shape.
\<close>

definition date_well_typed :: "airtable_record \<Rightarrow> bool" where
  "date_well_typed r =
     (case dict_get (get_fields r) ''Schedule Date'' of
        PStr s \<Rightarrow> True
      | v \<Rightarrow> \<not> truthy v)"

definition has_id :: "airtable_record \<Rightarrow> bool" where
  "has_id r = (rec_id r \<noteq> None)"

definition due_projection :: "airtable_record \<Rightarrow> due_entry" where
  "due_projection r =
     \<lparr>due_id = (case rec_id r of None \<Rightarrow> [] | Some i \<Rightarrow> i),
      due_fields =
        \<lparr>username = dict_get (get_fields r) ''Username'',
         package_name = package_name_of (dict_get (get_fields r) ''Package Name''),
         media_url = dict_get (get_fields r) ''Drive URL''\<rparr>\<rparr>"

text \<open>
  A warm-up record is pending when its status is the sentinel \<^verbatim>\<open>Warmup\<close> and its
  completion flag is not \<^verbatim>\<open>True\<close>.
\<close>

definition is_pending :: "airtable_record \<Rightarrow> bool" where
  "is_pending r =
     (dict_get (get_fields r) ''Status'' = PStr ''Warmup''
      \<and> dict_get (get_fields r) ''Daily Warmup Complete'' \<noteq> PBool True)"

definition warmup_projection :: "airtable_record \<Rightarrow> warmup_entry" where
  "warmup_projection r =
     \<lparr>wu_record_id = (case rec_id r of None \<Rightarrow> [] | Some i \<Rightarrow> i),
      wu_username = flatten (dict_get (get_fields r) ''Username''),
      wu_device_id = flatten (dict_get (get_fields r) ''Device ID''),
      wu_package_name = flatten (dict_get (get_fields r) ''Package Name'')\<rparr>"

text \<open>A service that refuses every listing request not limited to one record.\<close>

definition one_record_only :: "service \<Rightarrow> service" where
  "one_record_only svc =
     svc\<lparr>table_all :=
           (\<lambda>b t q. if req_max_records q = Some 1 then table_all svc b t q
                     else Inl OtherException)\<rparr>"

section \<open>Example data\<close>

definition example_client :: client where
  "example_client =
     \<lparr>api_key = ''key'', base_id = Some ''appBase'', table_id = Some ''tblTable'',
      view_name = Some ''Unposted''\<rparr>"

text \<open>
  A service whose listing answers with the given records, whatever the request, and whose
  clock reads 2025-04-05 in Bogota and 2025-04-06 elsewhere.
\<close>

definition answering :: "airtable_record list \<Rightarrow> service" where
  "answering records =
     \<lparr>table_all = (\<lambda>b t q. Inr records),
      table_update = (\<lambda>b t i f tc. Inr \<lparr>rec_id = Some i, rec_fields = Some f\<rparr>),
      now_date = (\<lambda>tz. if tz = ''America/Bogota'' then ''2025-04-05'' else ''2025-04-06'')\<rparr>"

text \<open>A service whose every call raises.\<close>

definition failing_service :: service where
  "failing_service =
     \<lparr>table_all = (\<lambda>b t q. Inl RequestException),
      table_update = (\<lambda>b t i f tc. Inl RequestException),
      now_date = (\<lambda>tz. ''2025-04-05'')\<rparr>"

definition rec_a :: airtable_record where
  "rec_a = \<lparr>rec_id = Some ''recA'',
            rec_fields = Some [(''Schedule Date'', PStr ''2025-04-05T00:00:00.000Z''),
                               (''Username'', PList [PStr ''ann'']),
                               (''Drive URL'', PList [PStr ''https://drive/a'']),
                               (''Package Name'', PList [PStr ''com.app.a''])]\<rparr>"

definition rec_b :: airtable_record where
  "rec_b = \<lparr>rec_id = Some ''recB'',
            rec_fields = Some [(''Schedule Date'', PStr ''2025-04-06T00:00:00.000Z''),
                               (''Username'', PStr ''bob'')]\<rparr>"

definition rec_c :: airtable_record where
  "rec_c = \<lparr>rec_id = Some ''recC'',
            rec_fields = Some [(''Schedule Date'', PStr ''2025-04-05T13:30:00.000Z''),
                               (''Username'', PStr ''cy''),
                               (''Package Name'', PStr ''com.app.c'')]\<rparr>"

definition wu_a :: airtable_record where
  "wu_a = \<lparr>rec_id = Some ''recA'',
           rec_fields = Some [(''Status'', PStr ''Warmup''),
                              (''Username'', PList [PStr ''ann'']),
                              (''Device ID'', PList [PStr ''dev1'']),
                              (''Package Name'', PList [PStr ''com.app.a''])]\<rparr>"

definition wu_b :: airtable_record where
  "wu_b = \<lparr>rec_id = Some ''recB'',
           rec_fields = Some [(''Status'', PStr ''Warmup''),
                              (''Daily Warmup Complete'', PBool True),
                              (''Username'', PStr ''bob'')]\<rparr>"

definition wu_c :: airtable_record where
  "wu_c = \<lparr>rec_id = Some ''recC'',
           rec_fields = Some [(''Status'', PStr ''Warmup''), (''Username'', PStr ''cy'')]\<rparr>"

definition wu_d :: airtable_record where
  "wu_d = \<lparr>rec_id = Some ''recD'',
           rec_fields = Some [(''Status'', PStr ''Active''), (''Username'', PStr ''dee'')]\<rparr>"

definition acc_a :: airtable_record where
  "acc_a = \<lparr>rec_id = Some ''recA'',
            rec_fields = Some [(''Account'', PStr ''ann''),
                               (''Package Name'', PList [PStr ''com.app.a'']),
                               (''Device ID'', PStr ''dev1'')]\<rparr>"

definition acc_b :: airtable_record where
  "acc_b = \<lparr>rec_id = Some ''recB'',
            rec_fields = Some [(''Account'', PStr ''bob''),
                               (''Package Name'', PList [])]\<rparr>"

definition acc_c :: airtable_record where
  "acc_c = \<lparr>rec_id = Some ''recC'',
            rec_fields = Some [(''Account'', PStr ''cy''),
                               (''Package Name'', PList [PStr ''com.app.c'']),
                               (''Device ID'', PList [])]\<rparr>"

definition env_key_only :: "string \<Rightarrow> string option" where
  "env_key_only name = (if name = ''AIRTABLE_API_KEY'' then Some ''patKey'' else None)"

definition env_alexis :: "string \<Rightarrow> string option" where
  "env_alexis name =
     (if name = ''AIRTABLE_API_KEY'' then Some ''patKey''
      else if name = ''ALEXIS_BASE_ID'' then Some ''appAlexis''
      else if name = ''ALEXIS_CONTENT_TABLE_ID'' then Some ''tblContent''
      else None)"

section \<open>The loops, characterised\<close>

subsection \<open>Due records\<close>

lemma unposted_loop_skip:
  "date_well_typed r \<Longrightarrow> \<not> is_due t r \<Longrightarrow>
   unposted_loop t m (r # rs) acc = unposted_loop t m rs acc"
  by (cases "dict_get (get_fields r) ''Schedule Date''")
     (auto simp: date_well_typed_def is_due_def Let_def)

lemma unposted_loop_hit:
  "has_id r \<Longrightarrow> is_due t r \<Longrightarrow>
   unposted_loop t m (r # rs) acc =
     (if int (length acc) + 1 \<ge> m then Inr (acc @ [due_projection r])
      else unposted_loop t m rs (acc @ [due_projection r]))"
  by (cases "dict_get (get_fields r) ''Schedule Date''")
     (auto simp: has_id_def is_due_def Let_def due_projection_def)

text \<open>
  The loop stops as soon as the list built so far has reached \<open>max_count\<close>; started
  below the limit, it computes a prefix of the due records.
\<close>

lemma unposted_loop_take:
  "list_all date_well_typed rs \<Longrightarrow> list_all has_id rs \<Longrightarrow> int (length acc) < m \<Longrightarrow>
   unposted_loop t m rs acc =
     Inr (take (nat m) (acc @ map due_projection (filter (is_due t) rs)))"
proof (induction rs arbitrary: acc)
  case Nil
  then show ?case by simp
next
  case (Cons r rs)
  show ?case
  proof (cases "is_due t r")
    case False
    with Cons show ?thesis by (simp add: unposted_loop_skip del: unposted_loop.simps)
  next
    case True
    show ?thesis
    proof (cases "int (length acc) + 1 \<ge> m")
      case stop: True
      with Cons.prems have "nat m = Suc (length acc)" by linarith
      with Cons.prems True stop show ?thesis
        by (simp add: unposted_loop_hit del: unposted_loop.simps)
    next
      case go: False
      then have less: "int (length (acc @ [due_projection r])) < m" by simp
      from go have "nat m - length acc = Suc (nat m - Suc (length acc))" by linarith
      with Cons.prems True go Cons.IH [OF _ _ less] show ?thesis
        by (simp add: unposted_loop_hit del: unposted_loop.simps)
    qed
  qed
qed


subsection \<open>Warm-up records\<close>

lemma warmup_loop_skip:
  "\<not> is_pending r \<Longrightarrow> warmup_loop mc (r # rs) acc = warmup_loop mc rs acc"
  by (auto simp: is_pending_def Let_def)

lemma warmup_loop_hit:
  "has_id r \<Longrightarrow> is_pending r \<Longrightarrow>
   warmup_loop mc (r # rs) acc =
     (if \<not> truthy mc then warmup_loop mc rs (acc @ [warmup_projection r])
      else (case len_ge (Suc (length acc)) mc of
              Inl e \<Rightarrow> Inl e
            | Inr stop \<Rightarrow>
                if stop then Inr (acc @ [warmup_projection r])
                else warmup_loop mc rs (acc @ [warmup_projection r])))"
  by (auto simp: has_id_def is_pending_def Let_def warmup_projection_def split: sum.splits)

lemma warmup_loop_falsy:
  "\<not> truthy mc \<Longrightarrow> warmup_loop mc rs acc = warmup_loop PNone rs acc"
  by (induction rs arbitrary: acc) (auto simp: Let_def split: option.splits)

lemma warmup_loop_all:
  "\<not> truthy mc \<Longrightarrow> list_all has_id rs \<Longrightarrow>
   warmup_loop mc rs acc = Inr (acc @ map warmup_projection (filter is_pending rs))"
proof (induction rs arbitrary: acc)
  case Nil
  then show ?case by simp
next
  case (Cons r rs)
  then show ?case
    by (cases "is_pending r")
       (simp_all add: warmup_loop_skip warmup_loop_hit del: warmup_loop.simps)
qed

lemma warmup_loop_take:
  "list_all has_id rs \<Longrightarrow> int (length acc) < n \<Longrightarrow>
   warmup_loop (PInt n) rs acc =
     Inr (take (nat n) (acc @ map warmup_projection (filter is_pending rs)))"
proof (induction rs arbitrary: acc)
  case Nil
  then show ?case by simp
next
  case (Cons r rs)
  from Cons.prems have pos: "truthy (PInt n)" by auto
  show ?case
  proof (cases "is_pending r")
    case False
    with Cons show ?thesis by (simp add: warmup_loop_skip del: warmup_loop.simps)
  next
    case True
    show ?thesis
    proof (cases "int (length acc) + 1 \<ge> n")
      case stop: True
      with Cons.prems have "nat n = Suc (length acc)" by linarith
      with Cons.prems True stop pos show ?thesis
        by (simp add: warmup_loop_hit del: warmup_loop.simps)
    next
      case go: False
      then have less: "int (length (acc @ [warmup_projection r])) < n" by simp
      from go have "nat n - length acc = Suc (nat n - Suc (length acc))" by linarith
      with Cons.prems True go pos Cons.IH [OF _ less] show ?thesis
        by (simp add: warmup_loop_hit del: warmup_loop.simps)
    qed
  qed
qed

subsection \<open>The account fetch\<close>

lemma dict_get_update_other:
  "k \<noteq> k' \<Longrightarrow> dict_get (AList.update k v d) k' = dict_get d k'"
  by (simp add: dict_get_def dict_get_default_def update_conv')

lemma normalize_array_field_empty:
  "dict_get d k = PList [] \<Longrightarrow> normalize_array_field d k = Inl IndexError"
  by (auto simp: normalize_array_field_def dict_get_def dict_get_default_def split: option.splits)

lemma normalize_array_field_flatten:
  "dict_get d k \<noteq> PList [] \<Longrightarrow> normalize_array_field d k = Inr (flatten (dict_get d k))"
  by (cases "dict_get d k" rule: flatten.cases)
     (auto simp: normalize_array_field_def dict_get_def dict_get_default_def split: option.splits)

lemma single_account_body_empty_view:
  "table_all svc (Some base) (Some table)
     \<lparr>req_view = Some view_id, req_fields = Some account_fields, req_max_records = Some 1\<rparr>
     = Inr []
   \<Longrightarrow> single_account_body svc self base table view_id = Inr None"
  by (simp add: single_account_body_def)

lemma single_account_body_record:
  assumes "table_all svc (Some base) (Some table)
             \<lparr>req_view = Some view_id, req_fields = Some account_fields,
              req_max_records = Some 1\<rparr>
           = Inr (r # rest)"
    and "dict_get (get_fields r) ''Package Name'' \<noteq> PList []"
    and "dict_get (get_fields r) ''Device ID'' \<noteq> PList []"
  shows "single_account_body svc self base table view_id
         = Inr (Some \<lparr>acc_id = rec_id r,
                      acc_fields =
                        AList.update ''Device ID'' (flatten (dict_get (get_fields r) ''Device ID''))
                          (AList.update ''Package Name''
                             (flatten (dict_get (get_fields r) ''Package Name''))
                             (get_fields r)),
                      acc_base_id = base, acc_table_id = table\<rparr>)"
proof -
  let ?p = "flatten (dict_get (get_fields r) ''Package Name'')"
  have p: "normalize_array_field (get_fields r) ''Package Name'' = Inr ?p"
    using assms(2) by (rule normalize_array_field_flatten)
  have "dict_get (AList.update ''Package Name'' ?p (get_fields r)) ''Device ID''
          = dict_get (get_fields r) ''Device ID''"
    by (rule dict_get_update_other) simp
  with assms(3)
  have d: "normalize_array_field (AList.update ''Package Name'' ?p (get_fields r)) ''Device ID''
             = Inr (flatten (dict_get (get_fields r) ''Device ID''))"
    using normalize_array_field_flatten
            [of "AList.update ''Package Name'' ?p (get_fields r)" "''Device ID''"]
    by simp
  from assms(1) p d show ?thesis
    by (simp add: single_account_body_def Let_def)
qed

lemma single_account_body_empty_list:
  assumes "table_all svc (Some base) (Some table)
             \<lparr>req_view = Some view_id, req_fields = Some account_fields,
              req_max_records = Some 1\<rparr>
           = Inr (r # rest)"
    and "dict_get (get_fields r) ''Package Name'' = PList []
         \<or> dict_get (get_fields r) ''Device ID'' = PList []"
  shows "single_account_body svc self base table view_id = Inl IndexError"
proof (cases "dict_get (get_fields r) ''Package Name'' = PList []")
  case True
  then have "normalize_array_field (get_fields r) ''Package Name'' = Inl IndexError"
    by (rule normalize_array_field_empty)
  with assms(1) show ?thesis by (simp add: single_account_body_def Let_def)
next
  case False
  let ?p = "flatten (dict_get (get_fields r) ''Package Name'')"
  from False have p: "normalize_array_field (get_fields r) ''Package Name'' = Inr ?p"
    by (rule normalize_array_field_flatten)
  from False assms(2) have "dict_get (get_fields r) ''Device ID'' = PList []" by simp
  moreover have "dict_get (AList.update ''Package Name'' ?p (get_fields r)) ''Device ID''
          = dict_get (get_fields r) ''Device ID''"
    by (rule dict_get_update_other) simp
  ultimately
  have d: "normalize_array_field (AList.update ''Package Name'' ?p (get_fields r)) ''Device ID''
             = Inl IndexError"
    by (simp add: normalize_array_field_empty)
  from assms(1) p d show ?thesis
    by (simp add: single_account_body_def Let_def)
qed

subsection \<open>The example data, evaluated\<close>

lemma wu_facts:
  "list_all has_id [wu_a, wu_b, wu_c, wu_d]"
  "is_pending wu_a" "\<not> is_pending wu_b" "is_pending wu_c" "\<not> is_pending wu_d"
  by (simp_all add: has_id_def is_pending_def wu_a_def wu_b_def wu_c_def wu_d_def
        get_fields_def dict_get_def dict_get_default_def)

lemma wu_projections:
  "warmup_projection wu_a =
     \<lparr>wu_record_id = ''recA'', wu_username = PStr ''ann'', wu_device_id = PStr ''dev1'',
      wu_package_name = PStr ''com.app.a''\<rparr>"
  "warmup_projection wu_c =
     \<lparr>wu_record_id = ''recC'', wu_username = PStr ''cy'', wu_device_id = PNone,
      wu_package_name = PNone\<rparr>"
  by (simp_all add: warmup_projection_def wu_a_def wu_c_def get_fields_def dict_get_def
        dict_get_default_def)

text \<open>Construction succeeds when the environment is complete.\<close>

lemma init_alexis:
  "init env_alexis (Some ''content_alexis'')
     = Inr \<lparr>api_key = ''patKey'', base_id = Some ''appAlexis'', table_id = Some ''tblContent'',
            view_name = Some ''Unposted''\<rparr>"
  "init env_key_only None
     = Inr \<lparr>api_key = ''patKey'', base_id = None, table_id = None, view_name = None\<rparr>"
  by (simp_all add: init_def table_map_def env_alexis_def env_key_only_def)

text \<open>
  On the failing service, the operations with a \<^verbatim>\<open>try\<close> return their empty result.
\<close>

lemma other_fetches_catch_failure:
  "get_unposted_records_for_today failing_service example_client 1 = []"
  "get_single_active_account failing_service example_client ''appBase'' ''tblAcc'' ''viw'' = None"
  "update_record_fields failing_service example_client ''recA'' [] = Inr None"
  by (simp_all add: get_unposted_records_for_today_def unposted_body_def
        get_single_active_account_def single_account_body_def update_record_fields_def
        failing_service_def)

subsection \<open>The fetches on the inputs they handle\<close>

text \<open>
  For view records that carry an id and whose schedule date is a string (or absent or
  empty), and a \<open>max_count\<close> of at least 1, fetching due records returns the records
  whose schedule date, cut at its first \<^verbatim>\<open>T\<close>, equals the current date in
  America/Bogota, in the order of the view, truncated to at most \<open>max_count\<close> records,
  each projected to id, username, package name and media url.
\<close>

theorem due_records_fetch:
  assumes "table_all svc (base_id self) (table_id self)
             \<lparr>req_view = view_name self, req_fields = None, req_max_records = None\<rparr>
           = Inr records"
    and "list_all has_id records"
    and "list_all date_well_typed records"
    and "1 \<le> max_count"
  shows "get_unposted_records_for_today svc self max_count
         = take (nat max_count)
             (map due_projection (filter (is_due (now_date svc ''America/Bogota'')) records))"
proof -
  from assms(4) have "int (length ([] :: due_entry list)) < max_count" by simp
  from unposted_loop_take [OF assms(3) assms(2) this] assms(1) show ?thesis
    by (simp add: get_unposted_records_for_today_def unposted_body_def)
qed

text \<open>
  Three records, two of them due on 2025-04-05, with \<open>max_count\<close> 1 and 5.
\<close>

theorem due_records_fetch_witness:
  "table_all (answering [rec_a, rec_b, rec_c]) (base_id example_client) (table_id example_client)
      \<lparr>req_view = view_name example_client, req_fields = None, req_max_records = None\<rparr>
     = Inr [rec_a, rec_b, rec_c]
   \<and> list_all has_id [rec_a, rec_b, rec_c]
   \<and> list_all date_well_typed [rec_a, rec_b, rec_c]
   \<and> (1::int) \<le> 1
   \<and> get_unposted_records_for_today (answering [rec_a, rec_b, rec_c]) example_client 1
       = [due_projection rec_a]
   \<and> get_unposted_records_for_today (answering [rec_a, rec_b, rec_c]) example_client 5
       = [due_projection rec_a, due_projection rec_c]"
proof -
  have a: "table_all (answering [rec_a, rec_b, rec_c]) (base_id example_client)
             (table_id example_client)
             \<lparr>req_view = view_name example_client, req_fields = None, req_max_records = None\<rparr>
           = Inr [rec_a, rec_b, rec_c]"
    by (simp add: answering_def)
  have b: "list_all has_id [rec_a, rec_b, rec_c]"
    by (simp add: has_id_def rec_a_def rec_b_def rec_c_def)
  have c: "list_all date_well_typed [rec_a, rec_b, rec_c]"
    by (simp add: date_well_typed_def rec_a_def rec_b_def rec_c_def get_fields_def dict_get_def
          dict_get_default_def)
  have d: "is_due ''2025-04-05'' rec_a" "\<not> is_due ''2025-04-05'' rec_b"
    "is_due ''2025-04-05'' rec_c"
    by (simp_all add: is_due_def rec_a_def rec_b_def rec_c_def get_fields_def dict_get_def
          dict_get_default_def)
  have n: "now_date (answering [rec_a, rec_b, rec_c]) ''America/Bogota'' = ''2025-04-05''"
    by (simp add: answering_def)
  from due_records_fetch [OF a b c, of 1] due_records_fetch [OF a b c, of 5] a b c d n
  show ?thesis by simp
qed

text \<open>
  Fetching one available account only issues a listing request limited to one record; on
  an empty view it returns nothing; and for a record whose package name and device id are
  not empty lists it returns the record's id and its fields, with package name and device
  id normalized, together with the base and the table.
\<close>

theorem single_account_fetch:
  "get_single_active_account svc self base table view_id
     = get_single_active_account (one_record_only svc) self base table view_id
   \<and> (table_all svc (Some base) (Some table)
         \<lparr>req_view = Some view_id, req_fields = Some account_fields,
          req_max_records = Some 1\<rparr>
         = Inr []
       \<longrightarrow> get_single_active_account svc self base table view_id = None)
   \<and> (table_all svc (Some base) (Some table)
         \<lparr>req_view = Some view_id, req_fields = Some account_fields,
          req_max_records = Some 1\<rparr>
         = Inr (r # rest)
       \<and> dict_get (get_fields r) ''Package Name'' \<noteq> PList []
       \<and> dict_get (get_fields r) ''Device ID'' \<noteq> PList []
       \<longrightarrow> get_single_active_account svc self base table view_id
             = Some \<lparr>acc_id = rec_id r,
                     acc_fields =
                       AList.update ''Device ID''
                         (flatten (dict_get (get_fields r) ''Device ID''))
                         (AList.update ''Package Name''
                            (flatten (dict_get (get_fields r) ''Package Name''))
                            (get_fields r)),
                     acc_base_id = base, acc_table_id = table\<rparr>)"
proof -
  have limited: "single_account_body svc self base table view_id
                   = single_account_body (one_record_only svc) self base table view_id"
    by (simp add: single_account_body_def one_record_only_def)
  show ?thesis
    using limited single_account_body_empty_view [of svc base table view_id self]
      single_account_body_record [of svc base table view_id r rest self]
    by (simp add: get_single_active_account_def)
qed

text \<open>An empty view, and a view with one account.\<close>

theorem single_account_fetch_witness:
  "table_all (answering []) (Some ''appBase'') (Some ''tblAcc'')
      \<lparr>req_view = Some ''viwFree'', req_fields = Some account_fields,
       req_max_records = Some 1\<rparr> = Inr []
   \<and> get_single_active_account (answering []) example_client ''appBase'' ''tblAcc'' ''viwFree''
       = None
   \<and> table_all (answering [acc_a]) (Some ''appBase'') (Some ''tblAcc'')
      \<lparr>req_view = Some ''viwFree'', req_fields = Some account_fields,
       req_max_records = Some 1\<rparr> = Inr [acc_a]
   \<and> dict_get (get_fields acc_a) ''Package Name'' \<noteq> PList []
   \<and> dict_get (get_fields acc_a) ''Device ID'' \<noteq> PList []
   \<and> get_single_active_account (answering [acc_a]) example_client ''appBase'' ''tblAcc''
        ''viwFree''
       = Some \<lparr>acc_id = Some ''recA'',
               acc_fields = [(''Account'', PStr ''ann''), (''Package Name'', PStr ''com.app.a''),
                             (''Device ID'', PStr ''dev1'')],
               acc_base_id = ''appBase'', acc_table_id = ''tblAcc''\<rparr>"
proof -
  have e: "table_all (answering rs) (Some ''appBase'') (Some ''tblAcc'')
      \<lparr>req_view = Some ''viwFree'', req_fields = Some account_fields,
       req_max_records = Some 1\<rparr> = Inr rs" for rs
    by (simp add: answering_def)
  have g: "dict_get (get_fields acc_a) ''Package Name'' = PList [PStr ''com.app.a'']"
    "dict_get (get_fields acc_a) ''Device ID'' = PStr ''dev1''"
    "get_fields acc_a = [(''Account'', PStr ''ann''),
                         (''Package Name'', PList [PStr ''com.app.a'']),
                         (''Device ID'', PStr ''dev1'')]"
    "rec_id acc_a = Some ''recA''"
    by (simp_all add: acc_a_def get_fields_def dict_get_def dict_get_default_def)
  from single_account_fetch [of "answering []" example_client "''appBase''" "''tblAcc''"
         "''viwFree''" acc_a "[]"]
       single_account_fetch [of "answering [acc_a]" example_client "''appBase''" "''tblAcc''"
         "''viwFree''" acc_a "[]"]
       e g
  show ?thesis by auto
qed

section \<open>The claims\<close>

subsection \<open>C1: the result of flagging a record as failed\<close>

text \<open>
  Claim C1 says that \<^verbatim>\<open>mark_something_went_wrong_and_rotate\<close> returns \<^verbatim>\<open>True\<close> when the
  update of \<^verbatim>\<open>Something Went Wrong\<close> succeeded and \<^verbatim>\<open>False\<close> when it failed. The
  method returns \<^verbatim>\<open>False\<close> only from its \<^verbatim>\<open>except\<close> branch, and
  \<^verbatim>\<open>update_record_fields\<close> never raises: it catches the failure itself and returns
  \<^verbatim>\<open>None\<close>. On a service whose update raises, the result is \<^verbatim>\<open>True\<close>.
\<close>

theorem mark_returns_True_when_update_fails:
  "table_update failing_service (base_id example_client) (table_id example_client) ''recA''
     [(''Something Went Wrong'', PBool True)] True = Inl RequestException
   \<and> mark_something_went_wrong_and_rotate failing_service example_client ''recA'' = True"
  by (simp add: mark_something_went_wrong_and_rotate_def update_record_fields_def
        failing_service_def)

subsection \<open>C2: failures are caught inside every operation\<close>

text \<open>
  Claim C2 says that every operation other than construction catches a failure and returns
  an empty result, fetching pending warm-up records in particular. That method has no
  \<^verbatim>\<open>try\<close>: when listing the view raises, the exception reaches the caller.
\<close>

theorem warmup_fetch_propagates_failure:
  "get_pending_warmup_records failing_service example_client PNone = Inl RequestException"
  by (simp add: get_pending_warmup_records_def failing_service_def)

subsection \<open>C3: normalization of linked-record fields\<close>

text \<open>
  Claim C3, as stated, fails on the empty list: the warm-up fetch (and the due-record fetch)
  guard the indexing with the list's truthiness, so an empty list passes through as the
  empty list and not as \<^verbatim>\<open>None\<close>.
\<close>

theorem empty_list_not_normalized_to_None:
  "get_pending_warmup_records
     (answering [\<lparr>rec_id = Some ''rec1'',
                  rec_fields = Some [(''Status'', PStr ''Warmup''), (''Username'', PList [])]\<rparr>])
     example_client PNone
   = Inr [\<lparr>wu_record_id = ''rec1'', wu_username = PList [], wu_device_id = PNone,
           wu_package_name = PNone\<rparr>]
   \<and> flatten (PList []) \<noteq> PNone
   \<and> package_name_of (PList []) \<noteq> PNone"
  by (simp add: get_pending_warmup_records_def answering_def get_fields_def dict_get_def
        dict_get_default_def)

text \<open>
  Claim C3, amended: in the due-record fetch, the single-account fetch and the warm-up
  fetch, a one-element list normalizes to its element and a value that is not a list passes
  through unchanged; in the due-record fetch and the warm-up fetch an empty list passes
  through unchanged, as the empty list.
\<close>

theorem linked_field_normalization:
  "package_name_of (PList [x]) = x
   \<and> flatten (PList [x]) = x
   \<and> (dict_get d k = PList [x] \<longrightarrow> normalize_array_field d k = Inr x)
   \<and> (\<not> is_list v \<longrightarrow> package_name_of v = v \<and> flatten v = v)
   \<and> (\<not> is_list (dict_get d k) \<longrightarrow> normalize_array_field d k = Inr (dict_get d k))
   \<and> package_name_of (PList []) = PList []
   \<and> flatten (PList []) = PList []"
proof -
  have one: "dict_get d k = PList [x] \<Longrightarrow> normalize_array_field d k = Inr x"
    using normalize_array_field_flatten [of d k] by simp
  have scalar: "\<not> is_list v \<Longrightarrow> package_name_of v = v \<and> flatten v = v"
    by (cases v) simp_all
  have other: "\<not> is_list (dict_get d k) \<Longrightarrow> normalize_array_field d k = Inr (dict_get d k)"
    by (simp add: normalize_array_field_def)
  from one scalar other show ?thesis by simp
qed

text \<open>
  The statement of C3 at a record with a one-element package name and a scalar account name,
  and at one with no package name.
\<close>

theorem linked_field_normalization_witness:
  "dict_get [(''Package Name'', PList [PStr ''com.app'']), (''Account'', PStr ''ann'')]
       ''Package Name'' = PList [PStr ''com.app'']
   \<and> normalize_array_field
       [(''Package Name'', PList [PStr ''com.app'']), (''Account'', PStr ''ann'')]
       ''Package Name'' = Inr (PStr ''com.app'')
   \<and> \<not> is_list (PStr ''ann'')
   \<and> flatten (PStr ''ann'') = PStr ''ann''
   \<and> package_name_of (PStr ''ann'') = PStr ''ann''
   \<and> \<not> is_list (dict_get [(''Account'', PStr ''ann'')] ''Package Name'')
   \<and> normalize_array_field [(''Account'', PStr ''ann'')] ''Package Name'' = Inr PNone"
  using linked_field_normalization
          [of "PStr ''com.app''"
              "[(''Package Name'', PList [PStr ''com.app'']), (''Account'', PStr ''ann'')]"
              "''Package Name''" "PStr ''ann''"]
        linked_field_normalization
          [of "PStr ''com.app''" "[(''Account'', PStr ''ann'')]" "''Package Name''" "PStr ''ann''"]
  by (simp add: dict_get_def dict_get_default_def)

subsection \<open>C4: the records due today\<close>

text \<open>
  Claim C4 says that, for every list of view records and every \<open>max_count\<close>, fetching
  due records returns the records whose schedule date, cut to its date portion, is the
  current date in America/Bogota, truncated to at most \<open>max_count\<close> records. The loop
  compares the length of its result with \<open>max_count\<close> only after it has appended a
  record: asked for at most 0 records, on a view with one due record, the method returns
  that record.
\<close>

theorem max_count_zero_returns_a_record:
  "get_unposted_records_for_today (answering [rec_a]) example_client 0
     = [\<lparr>due_id = ''recA'',
         due_fields = \<lparr>username = PList [PStr ''ann''], package_name = PStr ''com.app.a'',
                        media_url = PList [PStr ''https://drive/a'']\<rparr>\<rparr>]
   \<and> \<not> int (length (get_unposted_records_for_today (answering [rec_a]) example_client 0)) \<le> 0"
  by (simp add: get_unposted_records_for_today_def unposted_body_def answering_def rec_a_def
        get_fields_def dict_get_def dict_get_default_def Let_def)

subsection \<open>C5: the pending warm-up records\<close>

text \<open>
  Claim C5, as stated, fails at \<open>max_count = 0\<close>: the limit is applied only when
  \<open>max_count\<close> is truthy, so a given limit of 0 does not truncate the result to at most 0
  records.
\<close>

theorem warmup_max_count_zero_not_truncated:
  "get_pending_warmup_records (answering [wu_c]) example_client (PInt 0)
     = Inr [\<lparr>wu_record_id = ''recC'', wu_username = PStr ''cy'', wu_device_id = PNone,
             wu_package_name = PNone\<rparr>]
   \<and> get_pending_warmup_records (answering [wu_c]) example_client (PInt 0) \<noteq> Inr (take 0 [warmup_projection wu_c])"
  by (simp add: get_pending_warmup_records_def answering_def wu_c_def get_fields_def
        dict_get_def dict_get_default_def Let_def)

text \<open>
  Claim C5, amended: for every list of warm-up view records that carry an id, fetching
  pending warm-up records returns exactly the records whose status is \<^verbatim>\<open>Warmup\<close> and
  whose completion flag is not \<^verbatim>\<open>True\<close> (a record with a true flag is excluded even when
  its status matches), in the order of the view; all of them when \<open>max_count\<close> is omitted,
  and at most \<open>max_count\<close> of them when \<open>max_count\<close> is an integer of at least 1.
\<close>

theorem pending_warmup_fetch:
  assumes "table_all svc (base_id self) (table_id self)
             \<lparr>req_view = Some ''Warmup'', req_fields = None, req_max_records = None\<rparr>
           = Inr records"
    and "list_all has_id records"
  shows "get_pending_warmup_records svc self PNone
           = Inr (map warmup_projection (filter is_pending records))
         \<and> (1 \<le> n \<longrightarrow>
              get_pending_warmup_records svc self (PInt n)
                = Inr (take (nat n) (map warmup_projection (filter is_pending records))))"
proof -
  have all: "warmup_loop PNone records []
               = Inr ([] @ map warmup_projection (filter is_pending records))"
    using assms(2) by (intro warmup_loop_all) simp_all
  have some: "warmup_loop (PInt n) records []
                = Inr (take (nat n) ([] @ map warmup_projection (filter is_pending records)))"
    if "1 \<le> n"
    using assms(2) that by (intro warmup_loop_take) simp_all
  from all some assms(1) show ?thesis
    by (simp add: get_pending_warmup_records_def)
qed

text \<open>
  The statement of C5 on four records: two pending, one complete, one with another status.
\<close>

theorem pending_warmup_fetch_witness:
  "table_all (answering [wu_a, wu_b, wu_c, wu_d]) (base_id example_client)
      (table_id example_client)
      \<lparr>req_view = Some ''Warmup'', req_fields = None, req_max_records = None\<rparr>
     = Inr [wu_a, wu_b, wu_c, wu_d]
   \<and> list_all has_id [wu_a, wu_b, wu_c, wu_d]
   \<and> (1::int) \<le> 1
   \<and> get_pending_warmup_records (answering [wu_a, wu_b, wu_c, wu_d]) example_client PNone
       = Inr [warmup_projection wu_a, warmup_projection wu_c]
   \<and> get_pending_warmup_records (answering [wu_a, wu_b, wu_c, wu_d]) example_client (PInt 1)
       = Inr [warmup_projection wu_a]"
proof -
  have a: "table_all (answering [wu_a, wu_b, wu_c, wu_d]) (base_id example_client)
             (table_id example_client)
             \<lparr>req_view = Some ''Warmup'', req_fields = None, req_max_records = None\<rparr>
           = Inr [wu_a, wu_b, wu_c, wu_d]"
    by (simp add: answering_def)
  from pending_warmup_fetch [OF a wu_facts(1), of 1] a wu_facts show ?thesis by simp
qed

subsection \<open>C6: fetching one available account\<close>

text \<open>
  Claim C6 says that fetching one available account requests at most one record, returns
  nothing without raising when the view is empty, and, when a record exists, returns that
  record's id and fields together with the base and the table it was fetched from. On a
  view whose record has an empty list as its package name, the record exists and the
  method returns nothing: indexing the empty list raises, and the handler of the method
  turns the exception into \<^verbatim>\<open>None\<close>.
\<close>

theorem record_with_empty_list_is_not_returned:
  "get_single_active_account (answering [acc_b]) example_client ''appBase'' ''tblAcc'' ''viwFree''
     = None
   \<and> table_all (answering [acc_b]) (Some ''appBase'') (Some ''tblAcc'')
       \<lparr>req_view = Some ''viwFree'', req_fields = Some account_fields,
        req_max_records = Some 1\<rparr>
     = Inr [acc_b]"
  by (simp add: get_single_active_account_def single_account_body_def answering_def acc_b_def
        get_fields_def normalize_array_field_def dict_get_def dict_get_default_def Let_def)

subsection \<open>C7: construction raises on missing configuration\<close>

text \<open>
  Claim C7: construction raises a ValueError when the API key is absent (or empty), whatever
  the configuration key; and, when a configuration key is supplied (a non-empty string, as
  the constructor tests it), when the key is not one of the supported ones, or when its base
  id, table id or view name is missing.
\<close>

theorem init_raises_on_missing_configuration:
  "(\<not> truthy_opt (getenv ''AIRTABLE_API_KEY'') \<longrightarrow> raises_ValueError (init getenv table_key))
   \<and> (k \<noteq> [] \<and> map_of (table_map getenv) k = None
        \<longrightarrow> raises_ValueError (init getenv (Some k)))
   \<and> (k \<noteq> [] \<and> map_of (table_map getenv) k = Some config
        \<and> \<not> (truthy_opt (cfg_base_id config) \<and> truthy_opt (cfg_table_id config)
              \<and> cfg_view config \<noteq> [])
        \<longrightarrow> raises_ValueError (init getenv (Some k)))"
proof -
  have key: "raises_ValueError (init getenv tk)" if "\<not> truthy_opt (getenv ''AIRTABLE_API_KEY'')"
    for tk
    using that by (cases "getenv ''AIRTABLE_API_KEY''") (simp_all add: init_def)
  have unsupported: "raises_ValueError (init getenv (Some k))"
    if "k \<noteq> []" "map_of (table_map getenv) k = None"
  proof (cases "truthy_opt (getenv ''AIRTABLE_API_KEY'')")
    case True
    with that show ?thesis
      by (cases "getenv ''AIRTABLE_API_KEY''") (simp_all add: init_def)
  next
    case False
    then show ?thesis by (rule key)
  qed
  have missing: "raises_ValueError (init getenv (Some k))"
    if "k \<noteq> []" "map_of (table_map getenv) k = Some config"
      "\<not> (truthy_opt (cfg_base_id config) \<and> truthy_opt (cfg_table_id config)
          \<and> cfg_view config \<noteq> [])"
  proof (cases "truthy_opt (getenv ''AIRTABLE_API_KEY'')")
    case True
    with that show ?thesis
      by (cases "getenv ''AIRTABLE_API_KEY''") (auto simp: init_def)
  next
    case False
    then show ?thesis by (rule key)
  qed
  from key unsupported missing show ?thesis by blast
qed

text \<open>
  The statement of C7 on an empty environment, and on an environment that holds the API key
  only, with an unsupported key and with a supported one.
\<close>

theorem init_raises_on_missing_configuration_witness:
  "\<not> truthy_opt ((\<lambda>name. None) ''AIRTABLE_API_KEY'')
   \<and> raises_ValueError (init (\<lambda>name. None) None)
   \<and> ''content_bogus'' \<noteq> []
   \<and> map_of (table_map env_key_only) ''content_bogus'' = None
   \<and> raises_ValueError (init env_key_only (Some ''content_bogus''))
   \<and> map_of (table_map env_key_only) ''warmup_accounts''
       = Some \<lparr>cfg_base_id = None, cfg_table_id = None, cfg_view = ''Warmup''\<rparr>
   \<and> raises_ValueError (init env_key_only (Some ''warmup_accounts''))"
  using init_raises_on_missing_configuration
          [of "\<lambda>name. None" None "''content_bogus''"
              "\<lparr>cfg_base_id = None, cfg_table_id = None, cfg_view = ''Warmup''\<rparr>"]
        init_raises_on_missing_configuration
          [of env_key_only None "''content_bogus''"
              "\<lparr>cfg_base_id = None, cfg_table_id = None, cfg_view = ''Warmup''\<rparr>"]
        init_raises_on_missing_configuration
          [of env_key_only None "''warmup_accounts''"
              "\<lparr>cfg_base_id = None, cfg_table_id = None, cfg_view = ''Warmup''\<rparr>"]
  by (simp add: table_map_def env_key_only_def)

subsection \<open>C8: only the package name is normalized in the due-record fetch\<close>



subsection \<open>C9: a falsy limit is no limit\<close>

text \<open>
  Claim C9: fetching pending warm-up records with \<open>max_count\<close> equal to 0, or any other
  falsy value, returns what the call without \<open>max_count\<close> returns: every pending record
  (when the records carry an id), not an empty list.
\<close>

theorem falsy_max_count_is_no_limit:
  assumes "\<not> truthy max_count"
  shows "get_pending_warmup_records svc self max_count
           = get_pending_warmup_records svc self PNone
         \<and> (table_all svc (base_id self) (table_id self)
               \<lparr>req_view = Some ''Warmup'', req_fields = None, req_max_records = None\<rparr>
               = Inr records
             \<and> list_all has_id records
             \<longrightarrow> get_pending_warmup_records svc self max_count
                   = Inr (map warmup_projection (filter is_pending records)))"
proof -
  have same: "warmup_loop max_count rs [] = warmup_loop PNone rs []" for rs
    using assms by (rule warmup_loop_falsy)
  have every: "warmup_loop max_count records []
                 = Inr ([] @ map warmup_projection (filter is_pending records))"
    if "list_all has_id records"
    using assms that by (rule warmup_loop_all)
  from same every show ?thesis
    by (auto simp: get_pending_warmup_records_def split: sum.splits)
qed

text \<open>The statement of C9 at \<open>max_count = 0\<close>, on four records of which two are pending.\<close>

theorem falsy_max_count_is_no_limit_witness:
  "\<not> truthy (PInt 0)
   \<and> get_pending_warmup_records (answering [wu_a, wu_b, wu_c, wu_d]) example_client (PInt 0)
       = get_pending_warmup_records (answering [wu_a, wu_b, wu_c, wu_d]) example_client PNone
   \<and> get_pending_warmup_records (answering [wu_a, wu_b, wu_c, wu_d]) example_client (PInt 0)
       = Inr [warmup_projection wu_a, warmup_projection wu_c]"
proof -
  have f: "\<not> truthy (PInt 0)" by simp
  have a: "table_all (answering [wu_a, wu_b, wu_c, wu_d]) (base_id example_client)
             (table_id example_client)
             \<lparr>req_view = Some ''Warmup'', req_fields = None, req_max_records = None\<rparr>
           = Inr [wu_a, wu_b, wu_c, wu_d]"
    by (simp add: answering_def)
  from falsy_max_count_is_no_limit [OF f, of "answering [wu_a, wu_b, wu_c, wu_d]"
         example_client "[wu_a, wu_b, wu_c, wu_d]"] a wu_facts
  show ?thesis by auto
qed

subsection \<open>C10: an empty list in the account fetch\<close>

text \<open>
  Claim C10: when the fetched account's \<^verbatim>\<open>Package Name\<close> or \<^verbatim>\<open>Device ID\<close> is present
  and equal to an empty list, indexing it raises IndexError inside the \<^verbatim>\<open>try\<close>, the
  generic handler catches it, and the whole call returns \<^verbatim>\<open>None\<close>.
\<close>

theorem empty_list_field_gives_None:
  assumes "table_all svc (Some base) (Some table)
             \<lparr>req_view = Some view_id, req_fields = Some account_fields,
              req_max_records = Some 1\<rparr>
           = Inr (r # rest)"
    and "dict_get (get_fields r) ''Package Name'' = PList []
         \<or> dict_get (get_fields r) ''Device ID'' = PList []"
  shows "single_account_body svc self base table view_id = Inl IndexError
         \<and> get_single_active_account svc self base table view_id = None"
  using single_account_body_empty_list [OF assms]
  by (simp add: get_single_active_account_def)

text \<open>The statement of C10 on an account whose device id is an empty list.\<close>

theorem empty_list_field_gives_None_witness:
  "table_all (answering [acc_c]) (Some ''appBase'') (Some ''tblAcc'')
      \<lparr>req_view = Some ''viwFree'', req_fields = Some account_fields,
       req_max_records = Some 1\<rparr> = Inr [acc_c]
   \<and> dict_get (get_fields acc_c) ''Device ID'' = PList []
   \<and> single_account_body (answering [acc_c]) example_client ''appBase'' ''tblAcc'' ''viwFree''
       = Inl IndexError
   \<and> get_single_active_account (answering [acc_c]) example_client ''appBase'' ''tblAcc''
        ''viwFree'' = None"
proof -
  have a: "table_all (answering [acc_c]) (Some ''appBase'') (Some ''tblAcc'')
      \<lparr>req_view = Some ''viwFree'', req_fields = Some account_fields,
       req_max_records = Some 1\<rparr> = Inr (acc_c # [])"
    by (simp add: answering_def)
  have b: "dict_get (get_fields acc_c) ''Device ID'' = PList []"
    by (simp add: acc_c_def get_fields_def dict_get_def dict_get_default_def)
  then have c: "dict_get (get_fields acc_c) ''Package Name'' = PList []
         \<or> dict_get (get_fields acc_c) ''Device ID'' = PList []" by simp
  from empty_list_field_gives_None [OF a c, of example_client] a b show ?thesis by simp
qed

end
